theory Spec2Isabelle
  imports Main "HOL-Library.Sublist"
begin

section \<open>Python strings\<close>

text \<open>
  A Python \<^verbatim>\<open>str\<close> is a sequence of Unicode code points. The notebook's retrieval
  tool uses four operations of the type: \<^verbatim>\<open>lower()\<close>, \<^verbatim>\<open>split()\<close> without
  arguments, the substring test \<^verbatim>\<open>in\<close> and \<^verbatim>\<open>join\<close>; f-strings concatenate.
\<close>

type_synonym codepoint = nat
type_synonym str = "codepoint list"

text \<open>ASCII literals of the notebook are written as HOL strings and read code point by code point.\<close>

definition lit :: "string \<Rightarrow> str" where
  "lit s = map of_char s"

text \<open>
  \<^verbatim>\<open>str.isspace\<close> for one code point, which is what \<^verbatim>\<open>split()\<close> separates on.
  The list is the complete whitespace table of CPython 3 (29 code points).
\<close>

definition isspace :: "codepoint \<Rightarrow> bool" where
  "isspace c \<longleftrightarrow>
     (0x09 \<le> c \<and> c \<le> 0x0D) \<or> (0x1C \<le> c \<and> c \<le> 0x20) \<or> c = 0x85 \<or> c = 0xA0 \<or>
     c = 0x1680 \<or> (0x2000 \<le> c \<and> c \<le> 0x200A) \<or> c = 0x2028 \<or> c = 0x2029 \<or>
     c = 0x202F \<or> c = 0x205F \<or> c = 0x3000"

text \<open>
  \<^verbatim>\<open>s.split()\<close>: the maximal runs of non-whitespace code points, in order; leading,
  trailing and repeated whitespace yields no empty word. \<open>word\<close> is the run being read.
\<close>

fun split_from :: "str \<Rightarrow> str \<Rightarrow> str list" where
  "split_from word [] = (if word = [] then [] else [word])"
| "split_from word (c # cs) =
     (if isspace c then (if word = [] then split_from [] cs else word # split_from [] cs)
      else split_from (word @ [c]) cs)"

definition str_split :: "str \<Rightarrow> str list" where
  "str_split s = split_from [] s"

text \<open>
  \<^verbatim>\<open>str.lower\<close>, code point by code point. The table holds every code point whose
  lowercase in CPython 3 (Unicode 14) has a code point below U+0100: the capital letters of
  Basic Latin and of the Latin-1 Supplement, U+0130 (whose lowercase is two code points),
  U+0178, U+1E9E, U+212A and U+212B; and U+039C, the uppercase of the micro sign. Every
  other code point is returned unchanged. For a caseless code point that is what Python does.
  The remaining cased letters, and capital sigma with its rule for the end of a word, have
  lowercases that lie entirely from U+0100 on and hold no whitespace: a word with such a
  code point is not a substring of the notebook's ASCII contents, lowercased or not, so
  returning it unchanged leaves what the retrieval tool returns as it is.
\<close>

definition lower_cp :: "codepoint \<Rightarrow> str" where
  "lower_cp c =
     (if 0x41 \<le> c \<and> c \<le> 0x5A then [c + 0x20]
      else if 0xC0 \<le> c \<and> c \<le> 0xDE \<and> c \<noteq> 0xD7 then [c + 0x20]
      else if c = 0x130 then [0x69, 0x307]
      else if c = 0x178 then [0xFF]
      else if c = 0x39C then [0x3BC]
      else if c = 0x1E9E then [0xDF]
      else if c = 0x212A then [0x6B]
      else if c = 0x212B then [0xE5]
      else [c])"

definition str_lower :: "str \<Rightarrow> str" where
  "str_lower s = concat (map lower_cp s)"



text \<open>\<^verbatim>\<open>word in s\<close> for two strings: \<open>word\<close> starts at some position of \<open>s\<close>.\<close>

fun str_contains :: "str \<Rightarrow> str \<Rightarrow> bool" where
  "str_contains [] word = (word = [])"
| "str_contains (c # cs) word = (prefix word (c # cs) \<or> str_contains cs word)"

text \<open>\<^verbatim>\<open>sep.join(xs)\<close>.\<close>

fun str_join :: "str \<Rightarrow> str list \<Rightarrow> str" where
  "str_join sep [] = []"
| "str_join sep [x] = x"
| "str_join sep (x # y # ys) = x @ sep @ str_join sep (y # ys)"

definition newline :: str where
  "newline = [0x0A]"

section \<open>The tip store\<close>

text \<open>
  A tip is a Python dict from field names to strings; reading a missing key raises
  \<^verbatim>\<open>KeyError\<close>. The keys are the ASCII field names of the notebook.
\<close>

type_synonym tip = "string \<rightharpoonup> str"

datatype error = KeyError string

definition getitem :: "tip \<Rightarrow> string \<Rightarrow> error + str" where
  "getitem d k = (case d k of None \<Rightarrow> Inl (KeyError k) | Some v \<Rightarrow> Inr v)"

text \<open>The module's global variables that the retrieval tool reads.\<close>

record globals =
  health_tips :: "tip list"

definition tip1 :: tip where
  "tip1 = [''id'' \<mapsto> lit ''tip1'',
           ''content'' \<mapsto> lit ''Do a 10-minute HIIT workout to boost your metabolism.'',
           ''source'' \<mapsto> lit ''Fitness Guru'']"

definition tip2 :: tip where
  "tip2 = [''id'' \<mapsto> lit ''tip2'',
           ''content'' \<mapsto> lit ''Take a brisk 15-minute walk to clear your mind and improve circulation.'',
           ''source'' \<mapsto> lit ''Health Coach'']"

definition tip3 :: tip where
  "tip3 = [''id'' \<mapsto> lit ''tip3'',
           ''content'' \<mapsto> lit ''Stretch for 5 minutes every hour if you're sitting at a desk.'',
           ''source'' \<mapsto> lit ''Wellness Expert'']"

definition tip4 :: tip where
  "tip4 = [''id'' \<mapsto> lit ''tip4'',
           ''content'' \<mapsto> lit ''Incorporate strength training twice a week for overall fitness.'',
           ''source'' \<mapsto> lit ''Personal Trainer'']"

definition tip5 :: tip where
  "tip5 = [''id'' \<mapsto> lit ''tip5'',
           ''content'' \<mapsto> lit ''Drink water regularly to stay hydrated during workouts.'',
           ''source'' \<mapsto> lit ''Nutritionist'']"

text \<open>The globals once the cell that defines \<^verbatim>\<open>health_tips\<close> has run.\<close>

definition notebook :: globals where
  "notebook = \<lparr>health_tips = [tip1, tip2, tip3, tip4, tip5]\<rparr>"

section \<open>The retrieval tool\<close>

text \<open>
  \<^verbatim>\<open>any(word in tip["content"].lower() for word in words)\<close>: the generator reads
  \<^verbatim>\<open>tip["content"]\<close> once per word and stops at the first word found.
\<close>

fun any_word_in :: "tip \<Rightarrow> str list \<Rightarrow> error + bool" where
  "any_word_in tip [] = Inr False"
| "any_word_in tip (word # ws) =
     (case getitem tip ''content'' of
        Inl e \<Rightarrow> Inl e
      | Inr c \<Rightarrow> if str_contains (str_lower c) word then Inr True else any_word_in tip ws)"

text \<open>The f-string \<^verbatim>\<open>f"Source: {tip['source']} => {tip['content']}"\<close>.\<close>

definition source_line :: "tip \<Rightarrow> error + str" where
  "source_line tip =
     (case getitem tip ''source'' of
        Inl e \<Rightarrow> Inl e
      | Inr s \<Rightarrow>
          (case getitem tip ''content'' of
             Inl e \<Rightarrow> Inl e
           | Inr c \<Rightarrow> Inr (lit ''Source: '' @ s @ lit '' => '' @ c)))"

text \<open>The loop \<^verbatim>\<open>for tip in health_tips\<close>, appending to the local list \<open>relevant\<close>.\<close>

fun for_tips :: "str \<Rightarrow> tip list \<Rightarrow> str list \<Rightarrow> error + str list" where
  "for_tips query_lower [] relevant = Inr relevant"
| "for_tips query_lower (tip # tips) relevant =
     (case any_word_in tip (str_split query_lower) of
        Inl e \<Rightarrow> Inl e
      | Inr found \<Rightarrow>
          if found then
            (case source_line tip of
               Inl e \<Rightarrow> Inl e
             | Inr line \<Rightarrow> for_tips query_lower tips (relevant @ [line]))
          else for_tips query_lower tips relevant)"

text \<open>The comprehension \<^verbatim>\<open>[f"Source: ..." for tip in health_tips]\<close> of the fallback.\<close>

fun all_lines :: "tip list \<Rightarrow> error + str list" where
  "all_lines [] = Inr []"
| "all_lines (tip # tips) =
     (case source_line tip of
        Inl e \<Rightarrow> Inl e
      | Inr line \<Rightarrow> (case all_lines tips of Inl e \<Rightarrow> Inl e | Inr ls \<Rightarrow> Inr (line # ls)))"

text \<open>
  \<^verbatim>\<open>retrieve_tips(query)\<close>, run on the globals \<open>g\<close>: the value returned or the
  exception raised, and the globals afterwards.
\<close>

definition retrieve_tips :: "str \<Rightarrow> globals \<Rightarrow> (error + str) \<times> globals" where
  "retrieve_tips query g =
     (let query_lower = str_lower query in
      case for_tips query_lower (health_tips g) [] of
        Inl e \<Rightarrow> (Inl e, g)
      | Inr relevant \<Rightarrow>
          if relevant = [] then
            (case all_lines (health_tips g) of
               Inl e \<Rightarrow> (Inl e, g)
             | Inr every \<Rightarrow> (Inr (str_join newline every), g))
          else (Inr (str_join newline relevant), g))"

text \<open>
  The same function with \<^verbatim>\<open>str.lower\<close> as a parameter, for what holds of the tool
  whatever the lowercase of a string is. With \<open>str_lower\<close> for the parameter it is
  \<open>retrieve_tips\<close>.
\<close>

fun any_word_in_with :: "(str \<Rightarrow> str) \<Rightarrow> tip \<Rightarrow> str list \<Rightarrow> error + bool" where
  "any_word_in_with lower tip [] = Inr False"
| "any_word_in_with lower tip (word # ws) =
     (case getitem tip ''content'' of
        Inl e \<Rightarrow> Inl e
      | Inr c \<Rightarrow> if str_contains (lower c) word then Inr True else any_word_in_with lower tip ws)"

fun for_tips_with ::
  "(str \<Rightarrow> str) \<Rightarrow> str \<Rightarrow> tip list \<Rightarrow> str list \<Rightarrow> error + str list" where
  "for_tips_with lower query_lower [] relevant = Inr relevant"
| "for_tips_with lower query_lower (tip # tips) relevant =
     (case any_word_in_with lower tip (str_split query_lower) of
        Inl e \<Rightarrow> Inl e
      | Inr found \<Rightarrow>
          if found then
            (case source_line tip of
               Inl e \<Rightarrow> Inl e
             | Inr line \<Rightarrow> for_tips_with lower query_lower tips (relevant @ [line]))
          else for_tips_with lower query_lower tips relevant)"

definition retrieve_tips_with ::
  "(str \<Rightarrow> str) \<Rightarrow> str \<Rightarrow> globals \<Rightarrow> (error + str) \<times> globals" where
  "retrieve_tips_with lower query g =
     (let query_lower = lower query in
      case for_tips_with lower query_lower (health_tips g) [] of
        Inl e \<Rightarrow> (Inl e, g)
      | Inr relevant \<Rightarrow>
          if relevant = [] then
            (case all_lines (health_tips g) of
               Inl e \<Rightarrow> (Inl e, g)
             | Inr every \<Rightarrow> (Inr (str_join newline every), g))
          else (Inr (str_join newline relevant), g))"

section \<open>The retrieval function as the specification words it\<close>

text \<open>
  The specification's Tip has a content and a source label; its retrieval function lowercases
  the query, splits it on whitespace into words, keeps the tips whose lowercased content has
  one of the words as a substring, renders each as "Source: X => content", substitutes the
  whole store when nothing was kept, and joins the renderings with newlines.
\<close>

definition substring :: "str \<Rightarrow> str \<Rightarrow> bool" where
  "substring word s \<longleftrightarrow> (\<exists>pre post. s = pre @ word @ post)"

definition tip_content :: "tip \<Rightarrow> str" where
  "tip_content t = (case t ''content'' of Some c \<Rightarrow> c | None \<Rightarrow> [])"

definition tip_source :: "tip \<Rightarrow> str" where
  "tip_source t = (case t ''source'' of Some s \<Rightarrow> s | None \<Rightarrow> [])"

definition has_fields :: "tip \<Rightarrow> bool" where
  "has_fields t \<longleftrightarrow> t ''content'' \<noteq> None \<and> t ''source'' \<noteq> None"

definition rendering :: "tip \<Rightarrow> str" where
  "rendering t = lit ''Source: '' @ tip_source t @ lit '' => '' @ tip_content t"

definition tip_matches :: "str \<Rightarrow> tip \<Rightarrow> bool" where
  "tip_matches q t \<longleftrightarrow>
     (\<exists>word \<in> set (str_split (str_lower q)). substring word (str_lower (tip_content t)))"

definition matching_tips :: "str \<Rightarrow> tip list" where
  "matching_tips q = filter (tip_matches q) (health_tips notebook)"

definition relevant_tips :: "str \<Rightarrow> tip list" where
  "relevant_tips q = (if matching_tips q = [] then health_tips notebook else matching_tips q)"

definition spec_retrieve_tips :: "str \<Rightarrow> str" where
  "spec_retrieve_tips q = str_join newline (map rendering (relevant_tips q))"

section \<open>Observing the output\<close>

text \<open>
  The lines of an output string, as \<^verbatim>\<open>out.split("\n")\<close> gives them; \<open>line\<close> is the
  line being read.
\<close>

fun lines_from :: "str \<Rightarrow> str \<Rightarrow> str list" where
  "lines_from line [] = [line]"
| "lines_from line (c # cs) =
     (if c = 0x0A then line # lines_from [] cs else lines_from (line @ [c]) cs)"

definition output_lines :: "str \<Rightarrow> str list" where
  "output_lines out = lines_from [] out"

text \<open>The tips of the store whose rendering is a line of what \<^verbatim>\<open>retrieve_tips(q)\<close> returns.\<close>

definition tips_rendered :: "str \<Rightarrow> tip list" where
  "tips_rendered q =
     (case fst (retrieve_tips q notebook) of
        Inl e \<Rightarrow> []
      | Inr out \<Rightarrow> filter (\<lambda>t. rendering t \<in> set (output_lines out)) (health_tips notebook))"

text \<open>
  A tip shares a word with a query when some whitespace-separated word of the query equals
  some whitespace-separated word of the tip's content: with the words as they are written,
  or, closer to the code, with both sides lowercased.
\<close>

definition common_word :: "str \<Rightarrow> str \<Rightarrow> bool" where
  "common_word a b \<longleftrightarrow> (\<exists>word \<in> set (str_split a). word \<in> set (str_split b))"

definition shares_word :: "str \<Rightarrow> tip \<Rightarrow> bool" where
  "shares_word q t \<longleftrightarrow> common_word q (tip_content t)"

definition shares_word_lower :: "str \<Rightarrow> tip \<Rightarrow> bool" where
  "shares_word_lower q t \<longleftrightarrow> common_word (str_lower q) (str_lower (tip_content t))"

text \<open>Two calls with the same query, the second on the globals the first one left.\<close>

definition retrieve_twice :: "str \<Rightarrow> globals \<Rightarrow> (error + str) \<times> (error + str)" where
  "retrieve_twice query g =
     (let (first, g1) = retrieve_tips query g;
          (second, g2) = retrieve_tips query g1
      in (first, second))"


section \<open>The turn coordinator\<close>

text \<open>
  The notebook builds its coordinator as
  \<^verbatim>\<open>RoundRobinGroupChat(agents=[retriever, responder], termination_condition=None, max_turns=4)\<close>.
  The class comes from a library; the notebook holds this configuration only.
\<close>

datatype role = RetrieverAgent | ResponderAgent

record message =
  sender :: role
  content :: str

record group_chat_config =
  termination_condition :: "(message list \<Rightarrow> bool) option"
  max_turns :: nat

definition group_chat :: group_chat_config where
  "group_chat = \<lparr>termination_condition = None, max_turns = 4\<rparr>"

text \<open>
  Modelled from the spec: the states of the Turn Coordinator, {Idle, RetrieverTurn,
  ResponderTurn, Done}. The coordinator's loop (the library's \<^verbatim>\<open>run_stream\<close>) is not
  among the sources.
\<close>

datatype phase = Idle | RetrieverTurn | ResponderTurn | Done

text \<open>
  Modelled from the spec: the model-call collaborator takes the role and the conversation so
  far and returns one generated message, or fails with a tool-invocation or a model-call
  error.
\<close>

datatype failure = ToolError | ModelCallError

type_synonym collaborator = "role \<Rightarrow> message list \<Rightarrow> failure + str"

text \<open>
  Modelled from the spec: the coordinator's state is its phase, the turn count and the
  append-only transcript. \<open>invoked\<close> logs the role invocations in order, and \<open>failed\<close>
  the error that aborted the run.
\<close>

record coordinator =
  phase :: phase
  turn_count :: nat
  transcript :: "message list"
  invoked :: "role list"
  failed :: "failure option"

text \<open>Modelled from the spec: the termination predicate, which a null condition never fires.\<close>

fun fires :: "(message list \<Rightarrow> bool) option \<Rightarrow> message list \<Rightarrow> bool" where
  "fires None tr = False"
| "fires (Some p) tr = p tr"

text \<open>
  Modelled from the spec: one role invocation. A failure aborts the run and surfaces the
  error; otherwise the role's message is appended to the transcript, the turn is counted and
  the coordinator moves to \<open>next\<close>.
\<close>

definition take_turn :: "collaborator \<Rightarrow> role \<Rightarrow> phase \<Rightarrow> coordinator \<Rightarrow> coordinator" where
  "take_turn model r next c =
     (case model r (transcript c) of
        Inl e \<Rightarrow> c\<lparr>phase := Done, invoked := invoked c @ [r], failed := Some e\<rparr>
      | Inr reply \<Rightarrow>
          c\<lparr>phase := next, turn_count := turn_count c + 1,
            transcript := transcript c @ [\<lparr>sender = r, content = reply\<rparr>],
            invoked := invoked c @ [r]\<rparr>)"

text \<open>
  Modelled from the spec: the transitions. Idle goes to RetrieverTurn on run start;
  RetrieverTurn goes to ResponderTurn after the Retriever emits a message; ResponderTurn goes
  back to RetrieverTurn unless the turn count reaches the configured maximum or the
  termination predicate fires, in which case the coordinator is Done.
\<close>

definition step :: "group_chat_config \<Rightarrow> collaborator \<Rightarrow> coordinator \<Rightarrow> coordinator" where
  "step cfg model c =
     (case phase c of
        Idle \<Rightarrow> c\<lparr>phase := RetrieverTurn\<rparr>
      | RetrieverTurn \<Rightarrow> take_turn model RetrieverAgent ResponderTurn c
      | ResponderTurn \<Rightarrow>
          (let c' = take_turn model ResponderAgent RetrieverTurn c in
           if phase c' \<noteq> Done \<and>
              (max_turns cfg \<le> turn_count c' \<or> fires (termination_condition cfg) (transcript c'))
           then c'\<lparr>phase := Done\<rparr> else c')
      | Done \<Rightarrow> c)"

text \<open>Modelled from the spec: a run takes transitions until the coordinator is Done.\<close>

function run :: "group_chat_config \<Rightarrow> collaborator \<Rightarrow> coordinator \<Rightarrow> coordinator" where
  "run cfg model c = (if phase c = Done then c else run cfg model (step cfg model c))"
  by pat_completeness auto
termination
  by (relation "measure (\<lambda>(cfg, model, c).
        3 * (max_turns cfg - turn_count c) +
        (case phase c of Idle \<Rightarrow> 3 | RetrieverTurn \<Rightarrow> 2 | ResponderTurn \<Rightarrow> 1 | Done \<Rightarrow> 0))")
     (auto simp: step_def take_turn_def Let_def split: phase.splits sum.splits)

declare run.simps [simp del]

text \<open>
  Modelled from the spec: a run starts Idle on the user's task, with an empty log, as
  \<^verbatim>\<open>group_chat.run_stream(task=user_query)\<close> starts it in the notebook.
\<close>

definition run_stream :: "group_chat_config \<Rightarrow> collaborator \<Rightarrow> message list \<Rightarrow> coordinator" where
  "run_stream cfg model task =
     run cfg model \<lparr>phase = Idle, turn_count = 0, transcript = task, invoked = [], failed = None\<rparr>"

text \<open>The first \<open>n\<close> roles of the round-robin order that starts with the Retriever.\<close>

definition alternating :: "nat \<Rightarrow> role list" where
  "alternating n = map (\<lambda>i. if even i then RetrieverAgent else ResponderAgent) [0..<n]"

text \<open>What every state of a run of \<open>group_chat\<close> satisfies.\<close>

definition round_robin :: "coordinator \<Rightarrow> bool" where
  "round_robin c \<longleftrightarrow>
     alternating (length (invoked c)) = invoked c \<and> length (invoked c) \<le> 4 \<and>
     (case phase c of
        Idle \<Rightarrow> invoked c = [] \<and> turn_count c = 0
      | RetrieverTurn \<Rightarrow> turn_count c = length (invoked c) \<and> even (turn_count c) \<and> turn_count c < 4
      | ResponderTurn \<Rightarrow> turn_count c = length (invoked c) \<and> odd (turn_count c) \<and> turn_count c < 4
      | Done \<Rightarrow> True)"

section \<open>The loop computes the matching tips\<close>

lemma str_contains_substring: "str_contains s word = substring word s"
proof (induction s)
  case Nil
  show ?case by (simp add: substring_def)
next
  case (Cons c cs)
  have "substring word (c # cs) \<longleftrightarrow> prefix word (c # cs) \<or> substring word cs"
    unfolding substring_def prefix_def
    by (auto simp: Cons_eq_append_conv)
  with Cons show ?case by simp
qed

lemma getitem_content: "has_fields t \<Longrightarrow> getitem t ''content'' = Inr (tip_content t)"
  by (auto simp: has_fields_def getitem_def tip_content_def)

lemma getitem_source: "has_fields t \<Longrightarrow> getitem t ''source'' = Inr (tip_source t)"
  by (auto simp: has_fields_def getitem_def tip_source_def)

lemma source_line_rendering: "has_fields t \<Longrightarrow> source_line t = Inr (rendering t)"
  by (simp add: source_line_def getitem_content getitem_source rendering_def)

lemma any_word_in_fields:
  "has_fields t \<Longrightarrow>
   any_word_in t ws = Inr (\<exists>word \<in> set ws. substring word (str_lower (tip_content t)))"
  by (induction ws) (simp_all add: getitem_content str_contains_substring)

lemma for_tips_fields:
  "list_all has_fields tips \<Longrightarrow>
   for_tips ql tips relevant =
     Inr (relevant @ map rendering
        (filter (\<lambda>t. \<exists>word \<in> set (str_split ql). substring word (str_lower (tip_content t))) tips))"
  by (induction tips arbitrary: relevant)
     (simp_all add: any_word_in_fields source_line_rendering)

lemma all_lines_fields: "list_all has_fields tips \<Longrightarrow> all_lines tips = Inr (map rendering tips)"
  by (induction tips) (simp_all add: source_line_rendering)

lemma health_tips_notebook: "health_tips notebook = [tip1, tip2, tip3, tip4, tip5]"
  by (simp add: notebook_def)

lemma notebook_fields: "list_all has_fields (health_tips notebook)"
  by (simp add: notebook_def has_fields_def tip1_def tip2_def tip3_def tip4_def tip5_def)

lemma for_tips_notebook:
  "for_tips (str_lower q) (health_tips notebook) [] = Inr (map rendering (matching_tips q))"
  unfolding matching_tips_def tip_matches_def [abs_def]
  by (simp add: for_tips_fields [OF notebook_fields])

lemma retrieve_tips_notebook:
  "retrieve_tips q notebook = (Inr (str_join newline (map rendering (relevant_tips q))), notebook)"
  by (simp add: retrieve_tips_def Let_def for_tips_notebook all_lines_fields [OF notebook_fields]
      relevant_tips_def)

lemma retrieve_tips_globals: "snd (retrieve_tips q g) = g"
  by (simp add: retrieve_tips_def Let_def split: sum.split)


section \<open>The lines of the output\<close>

lemma lines_from_append:
  "0x0A \<notin> set x \<Longrightarrow> lines_from line (x @ rest) = lines_from (line @ x) rest"
  by (induction x arbitrary: line) auto

lemma output_lines_join:
  "xs \<noteq> [] \<Longrightarrow> list_all (\<lambda>x. 0x0A \<notin> set x) xs \<Longrightarrow> output_lines (str_join newline xs) = xs"
proof (induction newline xs rule: str_join.induct)
  case 1
  then show ?case by simp
next
  case (2 x)
  then have "lines_from [] (x @ []) = lines_from ([] @ x) []"
    by (intro lines_from_append) simp
  then show ?case by (simp add: output_lines_def)
next
  case (3 x y ys)
  then have "lines_from [] (x @ (newline @ str_join newline (y # ys)))
      = lines_from ([] @ x) (newline @ str_join newline (y # ys))"
    by (intro lines_from_append) simp
  with 3 show ?case by (simp add: output_lines_def newline_def)
qed

lemma rendering_tips:
  "rendering tip1 = lit ''Source: Fitness Guru => Do a 10-minute HIIT workout to boost your metabolism.''"
  "rendering tip2 = lit ''Source: Health Coach => Take a brisk 15-minute walk to clear your mind and improve circulation.''"
  "rendering tip3 = lit ''Source: Wellness Expert => Stretch for 5 minutes every hour if you're sitting at a desk.''"
  "rendering tip4 = lit ''Source: Personal Trainer => Incorporate strength training twice a week for overall fitness.''"
  "rendering tip5 = lit ''Source: Nutritionist => Drink water regularly to stay hydrated during workouts.''"
  by (simp_all add: rendering_def tip_source_def tip_content_def lit_def
      tip1_def tip2_def tip3_def tip4_def tip5_def)

lemma rendering_no_newline: "list_all (\<lambda>t. 0x0A \<notin> set (rendering t)) (health_tips notebook)"
  by (simp add: notebook_def rendering_tips lit_def)

lemma rendering_distinct: "distinct (map rendering (health_tips notebook))"
  by (simp add: notebook_def rendering_tips lit_def)

lemma rendering_inj: "inj_on rendering (set (health_tips notebook))"
  using rendering_distinct by (simp add: distinct_map)

lemma relevant_tips_nonempty: "relevant_tips q \<noteq> []"
  by (simp add: relevant_tips_def notebook_def)

lemma relevant_tips_subseq: "subseq (relevant_tips q) (health_tips notebook)"
  by (simp add: relevant_tips_def matching_tips_def)

lemma relevant_tips_set: "set (relevant_tips q) \<subseteq> set (health_tips notebook)"
  by (auto simp: relevant_tips_def matching_tips_def)

lemma relevant_lines:
  "output_lines (str_join newline (map rendering (relevant_tips q))) = map rendering (relevant_tips q)"
proof (rule output_lines_join)
  show "map rendering (relevant_tips q) \<noteq> []"
    by (simp add: relevant_tips_nonempty)
  show "list_all (\<lambda>x. 0x0A \<notin> set x) (map rendering (relevant_tips q))"
    using rendering_no_newline relevant_tips_set [of q]
    by (auto simp: list_all_iff)
qed

lemma filter_mem_filter: "filter (\<lambda>t. t \<in> set xs \<and> P t) xs = filter P xs"
  by (rule filter_cong) auto

lemma tips_rendered_relevant: "tips_rendered q = relevant_tips q"
proof -
  have "tips_rendered q =
      filter (\<lambda>t. rendering t \<in> rendering ` set (relevant_tips q)) (health_tips notebook)"
    by (simp add: tips_rendered_def retrieve_tips_notebook relevant_lines)
  also have "\<dots> = filter (\<lambda>t. t \<in> set (relevant_tips q)) (health_tips notebook)"
  proof (rule filter_cong [OF refl])
    fix t assume "t \<in> set (health_tips notebook)"
    then show "(rendering t \<in> rendering ` set (relevant_tips q)) = (t \<in> set (relevant_tips q))"
      using rendering_inj relevant_tips_set [of q]
      by (auto simp: inj_on_def)
  qed
  also have "\<dots> = relevant_tips q"
    by (simp add: relevant_tips_def matching_tips_def filter_mem_filter filter_id_conv)
  finally show ?thesis .
qed

section \<open>Evaluating a query\<close>

lemma tip_matches_words:
  "str_split (str_lower q) = ws \<Longrightarrow> str_lower (tip_content t) = c \<Longrightarrow>
   tip_matches q t = list_ex (str_contains c) ws"
  by (simp add: tip_matches_def list_ex_iff str_contains_substring)

lemma lower_contents:
  "str_lower (tip_content tip1) = lit ''do a 10-minute hiit workout to boost your metabolism.''"
  "str_lower (tip_content tip2) = lit ''take a brisk 15-minute walk to clear your mind and improve circulation.''"
  "str_lower (tip_content tip3) = lit ''stretch for 5 minutes every hour if you're sitting at a desk.''"
  "str_lower (tip_content tip4) = lit ''incorporate strength training twice a week for overall fitness.''"
  "str_lower (tip_content tip5) = lit ''drink water regularly to stay hydrated during workouts.''"
  by (simp_all add: tip_content_def str_lower_def lower_cp_def lit_def
      tip1_def tip2_def tip3_def tip4_def tip5_def)

lemma tip_matches_empty_query: "\<not> tip_matches [] t"
  by (simp add: tip_matches_def str_lower_def str_split_def)

lemma split_yoga: "str_split (str_lower (lit ''Yoga'')) = [lit ''yoga'']"
  by (simp add: str_split_def str_lower_def lower_cp_def lit_def isspace_def)

lemma matches_yoga:
  "\<not> tip_matches (lit ''Yoga'') tip1" "\<not> tip_matches (lit ''Yoga'') tip2"
  "\<not> tip_matches (lit ''Yoga'') tip3" "\<not> tip_matches (lit ''Yoga'') tip4"
  "\<not> tip_matches (lit ''Yoga'') tip5"
  unfolding tip_matches_words [OF split_yoga lower_contents(1)]
      tip_matches_words [OF split_yoga lower_contents(2)]
      tip_matches_words [OF split_yoga lower_contents(3)]
      tip_matches_words [OF split_yoga lower_contents(4)]
      tip_matches_words [OF split_yoga lower_contents(5)]
  by (simp_all add: lit_def)

lemma split_a: "str_split (str_lower (lit ''a'')) = [lit ''a'']"
  by (simp add: str_split_def str_lower_def lower_cp_def lit_def isspace_def)

lemma matches_a:
  "tip_matches (lit ''a'') tip1" "tip_matches (lit ''a'') tip2" "tip_matches (lit ''a'') tip3"
  "tip_matches (lit ''a'') tip4" "tip_matches (lit ''a'') tip5"
  unfolding tip_matches_words [OF split_a lower_contents(1)]
      tip_matches_words [OF split_a lower_contents(2)]
      tip_matches_words [OF split_a lower_contents(3)]
      tip_matches_words [OF split_a lower_contents(4)]
      tip_matches_words [OF split_a lower_contents(5)]
  by (simp_all add: lit_def)

lemma contents:
  "tip_content tip1 = lit ''Do a 10-minute HIIT workout to boost your metabolism.''"
  "tip_content tip2 = lit ''Take a brisk 15-minute walk to clear your mind and improve circulation.''"
  "tip_content tip3 = lit ''Stretch for 5 minutes every hour if you're sitting at a desk.''"
  "tip_content tip4 = lit ''Incorporate strength training twice a week for overall fitness.''"
  "tip_content tip5 = lit ''Drink water regularly to stay hydrated during workouts.''"
  by (simp_all add: tip_content_def tip1_def tip2_def tip3_def tip4_def tip5_def)

lemma words_of_contents:
  "str_split (tip_content tip1) =
     [lit ''Do'', lit ''a'', lit ''10-minute'', lit ''HIIT'', lit ''workout'', lit ''to'',
      lit ''boost'', lit ''your'', lit ''metabolism.'']"
  "str_split (tip_content tip2) =
     [lit ''Take'', lit ''a'', lit ''brisk'', lit ''15-minute'', lit ''walk'', lit ''to'',
      lit ''clear'', lit ''your'', lit ''mind'', lit ''and'', lit ''improve'', lit ''circulation.'']"
  "str_split (tip_content tip3) =
     [lit ''Stretch'', lit ''for'', lit ''5'', lit ''minutes'', lit ''every'', lit ''hour'',
      lit ''if'', lit ''you're'', lit ''sitting'', lit ''at'', lit ''a'', lit ''desk.'']"
  "str_split (tip_content tip4) =
     [lit ''Incorporate'', lit ''strength'', lit ''training'', lit ''twice'', lit ''a'',
      lit ''week'', lit ''for'', lit ''overall'', lit ''fitness.'']"
  "str_split (tip_content tip5) =
     [lit ''Drink'', lit ''water'', lit ''regularly'', lit ''to'', lit ''stay'', lit ''hydrated'',
      lit ''during'', lit ''workouts.'']"
  unfolding contents by (simp_all add: str_split_def lit_def isspace_def)

lemma words_of_lower_contents:
  "str_split (str_lower (tip_content tip1)) =
     [lit ''do'', lit ''a'', lit ''10-minute'', lit ''hiit'', lit ''workout'', lit ''to'',
      lit ''boost'', lit ''your'', lit ''metabolism.'']"
  "str_split (str_lower (tip_content tip2)) =
     [lit ''take'', lit ''a'', lit ''brisk'', lit ''15-minute'', lit ''walk'', lit ''to'',
      lit ''clear'', lit ''your'', lit ''mind'', lit ''and'', lit ''improve'', lit ''circulation.'']"
  "str_split (str_lower (tip_content tip3)) =
     [lit ''stretch'', lit ''for'', lit ''5'', lit ''minutes'', lit ''every'', lit ''hour'',
      lit ''if'', lit ''you're'', lit ''sitting'', lit ''at'', lit ''a'', lit ''desk.'']"
  "str_split (str_lower (tip_content tip4)) =
     [lit ''incorporate'', lit ''strength'', lit ''training'', lit ''twice'', lit ''a'',
      lit ''week'', lit ''for'', lit ''overall'', lit ''fitness.'']"
  "str_split (str_lower (tip_content tip5)) =
     [lit ''drink'', lit ''water'', lit ''regularly'', lit ''to'', lit ''stay'', lit ''hydrated'',
      lit ''during'', lit ''workouts.'']"
  unfolding lower_contents by (simp_all add: str_split_def lit_def isspace_def)

lemma split_a_exact: "str_split (lit ''a'') = [lit ''a'']"
  by (simp add: str_split_def lit_def isspace_def)

lemma shares_a:
  "shares_word (lit ''a'') tip1" "shares_word (lit ''a'') tip2" "shares_word (lit ''a'') tip3"
  "shares_word (lit ''a'') tip4" "\<not> shares_word (lit ''a'') tip5"
  unfolding shares_word_def common_word_def split_a_exact words_of_contents
  by (simp_all add: lit_def)

lemma shares_lower_a:
  "shares_word_lower (lit ''a'') tip1" "shares_word_lower (lit ''a'') tip2"
  "shares_word_lower (lit ''a'') tip3" "shares_word_lower (lit ''a'') tip4"
  "\<not> shares_word_lower (lit ''a'') tip5"
  unfolding shares_word_lower_def common_word_def split_a words_of_lower_contents
  by (simp_all add: lit_def)

lemma split_strength: "str_split (str_lower (lit ''Strength'')) = [lit ''strength'']"
  by (simp add: str_split_def str_lower_def lower_cp_def lit_def isspace_def)

lemma matches_strength:
  "\<not> tip_matches (lit ''Strength'') tip1" "\<not> tip_matches (lit ''Strength'') tip2"
  "\<not> tip_matches (lit ''Strength'') tip3" "tip_matches (lit ''Strength'') tip4"
  "\<not> tip_matches (lit ''Strength'') tip5"
  unfolding tip_matches_words [OF split_strength lower_contents(1)]
      tip_matches_words [OF split_strength lower_contents(2)]
      tip_matches_words [OF split_strength lower_contents(3)]
      tip_matches_words [OF split_strength lower_contents(4)]
      tip_matches_words [OF split_strength lower_contents(5)]
  by (simp_all add: lit_def)

lemma split_hiit: "str_split (str_lower (lit ''HIIT workout'')) = [lit ''hiit'', lit ''workout'']"
  by (simp add: str_split_def str_lower_def lower_cp_def lit_def isspace_def)

lemma matches_hiit:
  "tip_matches (lit ''HIIT workout'') tip1" "\<not> tip_matches (lit ''HIIT workout'') tip2"
  "\<not> tip_matches (lit ''HIIT workout'') tip3" "\<not> tip_matches (lit ''HIIT workout'') tip4"
  "tip_matches (lit ''HIIT workout'') tip5"
  unfolding tip_matches_words [OF split_hiit lower_contents(1)]
      tip_matches_words [OF split_hiit lower_contents(2)]
      tip_matches_words [OF split_hiit lower_contents(3)]
      tip_matches_words [OF split_hiit lower_contents(4)]
      tip_matches_words [OF split_hiit lower_contents(5)]
  by (simp_all add: lit_def)






section \<open>Letter case\<close>






lemma any_word_in_with_str_lower: "any_word_in_with str_lower t ws = any_word_in t ws"
  by (induction ws) (simp_all split: sum.split)

lemma for_tips_with_str_lower: "for_tips_with str_lower ql tips relevant = for_tips ql tips relevant"
  by (induction tips arbitrary: relevant)
     (simp_all add: any_word_in_with_str_lower split: sum.split)

lemma retrieve_tips_with_str_lower: "retrieve_tips_with str_lower q g = retrieve_tips q g"
  by (simp add: retrieve_tips_with_def retrieve_tips_def for_tips_with_str_lower)


section \<open>Runs of the turn coordinator\<close>

lemma alternating_0: "alternating 0 = []"
  by (simp add: alternating_def)

lemma alternating_Suc:
  "alternating (Suc n) = alternating n @ [if even n then RetrieverAgent else ResponderAgent]"
  by (simp add: alternating_def)

lemma alternating_prefix:
  assumes "n \<le> m" shows "prefix (alternating n) (alternating m)"
proof -
  from assms obtain k where "m = n + k"
    using le_Suc_ex by blast
  then have "[0..<m] = [0..<n] @ [n..<n + k]"
    using upt_add_eq_append [of 0 n k] by simp
  then show ?thesis
    by (simp add: alternating_def)
qed

lemma run_invariant:
  "(\<And>c. P c \<Longrightarrow> phase c \<noteq> Done \<Longrightarrow> P (step cfg model c)) \<Longrightarrow> P c \<Longrightarrow>
   P (run cfg model c)"
proof (induction cfg model c rule: run.induct)
  case (1 cfg model c)
  show ?case
  proof (cases "phase c = Done")
    case True
    with 1(3) show ?thesis by (simp add: run.simps [of cfg model c])
  next
    case False
    then have "P (step cfg model c)" using 1(2,3) by blast
    with False 1(1,2) have "P (run cfg model (step cfg model c))" by blast
    with False show ?thesis by (simp add: run.simps [of cfg model c])
  qed
qed

lemma run_Done: "phase (run cfg model c) = Done"
proof (induction cfg model c rule: run.induct)
  case (1 cfg model c)
  then show ?case by (cases "phase c = Done") (simp_all add: run.simps [of cfg model c])
qed

lemma step_round_robin:
  assumes "round_robin c" shows "round_robin (step group_chat model c)"
proof (cases "phase c")
  case Idle
  with assms show ?thesis by (simp add: round_robin_def step_def alternating_0)
next
  case RetrieverTurn
  with assms show ?thesis
    by (auto simp: round_robin_def step_def take_turn_def alternating_Suc
        split: sum.splits phase.splits)
next
  case ResponderTurn
  with assms show ?thesis
    by (auto simp: round_robin_def step_def take_turn_def alternating_Suc Let_def group_chat_def
        split: sum.splits phase.splits)
next
  case Done
  with assms show ?thesis by (simp add: step_def)
qed

section \<open>Claims about the retrieval function\<close>

text \<open>
  C1. For every query string, \<^verbatim>\<open>retrieve_tips\<close> returns what the specification's
  algorithm computes: the query is lowercased and split on whitespace into words, a tip
  matches iff one of the words is a substring of its lowercased content, each matching tip is
  rendered as "Source: " ++ source ++ " => " ++ content, and the renderings (those of the
  whole store when no tip matches) are joined with newlines. No exception is raised.
\<close>

theorem retrieve_tips_algorithm:
  "fst (retrieve_tips q notebook) = Inr (spec_retrieve_tips q)"
  by (simp add: retrieve_tips_notebook spec_retrieve_tips_def)

text \<open>
  C2. For every query string, the empty one included, the output of \<^verbatim>\<open>retrieve_tips\<close>
  is a non-empty string, and one of its lines is the rendering of a tip of the store.
\<close>

theorem retrieve_tips_nonempty:
  "\<exists>out. fst (retrieve_tips q notebook) = Inr out \<and> out \<noteq> [] \<and>
     (\<exists>t \<in> set (health_tips notebook). rendering t \<in> set (output_lines out))"
proof -
  let ?out = "str_join newline (map rendering (relevant_tips q))"
  obtain t ts where ts: "relevant_tips q = t # ts"
    using relevant_tips_nonempty [of q] by (cases "relevant_tips q") auto
  then have t: "t \<in> set (health_tips notebook)"
    using relevant_tips_set [of q] by auto
  have ls: "output_lines ?out = map rendering (relevant_tips q)"
    by (rule relevant_lines)
  have "rendering t \<in> set (output_lines ?out)"
    unfolding ls by (simp add: ts)
  moreover have "?out \<noteq> []"
  proof
    assume "?out = []"
    then have "output_lines ?out = [[]]" by (simp add: output_lines_def)
    with ls have "rendering t = []" by (simp add: ts)
    then show False by (simp add: rendering_def lit_def)
  qed
  ultimately show ?thesis
    using t by (auto simp: retrieve_tips_notebook)
qed

text \<open>
  C3. For every query string none of whose lowercased words is a substring of the lowercased
  content of any tip, \<^verbatim>\<open>retrieve_tips\<close> returns the newline-join of the renderings of
  all five tips, in store order. The empty string is such a query: it has no words.
\<close>

theorem retrieve_tips_fallback:
  "\<not> (\<exists>t \<in> set (health_tips notebook). tip_matches q t) \<Longrightarrow>
   fst (retrieve_tips q notebook) =
     Inr (str_join newline (map rendering [tip1, tip2, tip3, tip4, tip5]))"
proof -
  assume "\<not> (\<exists>t \<in> set (health_tips notebook). tip_matches q t)"
  then have "matching_tips q = []"
    by (simp add: matching_tips_def filter_empty_conv)
  then show ?thesis
    by (simp add: retrieve_tips_notebook relevant_tips_def health_tips_notebook)
qed

theorem retrieve_tips_fallback_witness:
  "\<not> (\<exists>t \<in> set (health_tips notebook). tip_matches [] t) \<and>
   fst (retrieve_tips [] notebook) =
     Inr (str_join newline (map rendering [tip1, tip2, tip3, tip4, tip5])) \<and>
   \<not> (\<exists>t \<in> set (health_tips notebook). tip_matches (lit ''Yoga'') t) \<and>
   fst (retrieve_tips (lit ''Yoga'') notebook) =
     Inr (str_join newline (map rendering [tip1, tip2, tip3, tip4, tip5]))"
proof -
  have e: "\<not> (\<exists>t \<in> set (health_tips notebook). tip_matches [] t)"
    by (simp add: tip_matches_empty_query)
  have y: "\<not> (\<exists>t \<in> set (health_tips notebook). tip_matches (lit ''Yoga'') t)"
    by (simp add: health_tips_notebook matches_yoga)
  show ?thesis
    using retrieve_tips_fallback [OF e] retrieve_tips_fallback [OF y] e y
    by simp
qed

text \<open>
  C4, as the code has it. For every query string for which at least one tip matches, the tips
  rendered in the output are exactly the tips of the store for which some whitespace-separated
  word of the lowercased query is a substring of the lowercased content, in store order.
\<close>

theorem tips_rendered_matching:
  "matching_tips q \<noteq> [] \<Longrightarrow> tips_rendered q = matching_tips q"
  by (simp add: tips_rendered_relevant relevant_tips_def)

theorem tips_rendered_matching_witness:
  "matching_tips (lit ''Strength'') \<noteq> [] \<and>
   tips_rendered (lit ''Strength'') = matching_tips (lit ''Strength'') \<and>
   tips_rendered (lit ''Strength'') = [tip4]"
proof -
  have m: "matching_tips (lit ''Strength'') = [tip4]"
    by (simp add: matching_tips_def health_tips_notebook matches_strength)
  then have "matching_tips (lit ''Strength'') \<noteq> []" by simp
  from tips_rendered_matching [OF this] m show ?thesis by simp
qed

text \<open>
  C4 as stated fails: the rendered tips are not the tips that share a word with the query.
  For the query "a" every tip matches, since "a" is a substring of every content, and all five
  are rendered; but no word of the fifth tip's content is "a" ("a" occurs there inside
  "water", "regularly", "stay", "hydrated"), so the tips sharing a word are the first four,
  whether the words are compared as written or lowercased.
\<close>

theorem shared_word_counterexample:
  "matching_tips (lit ''a'') \<noteq> [] \<and>
   tips_rendered (lit ''a'') = [tip1, tip2, tip3, tip4, tip5] \<and>
   filter (shares_word (lit ''a'')) (health_tips notebook) = [tip1, tip2, tip3, tip4] \<and>
   filter (shares_word_lower (lit ''a'')) (health_tips notebook) = [tip1, tip2, tip3, tip4] \<and>
   set (tips_rendered (lit ''a'')) \<noteq> set (filter (shares_word (lit ''a'')) (health_tips notebook)) \<and>
   set (tips_rendered (lit ''a'')) \<noteq>
     set (filter (shares_word_lower (lit ''a'')) (health_tips notebook))"
proof -
  have m: "matching_tips (lit ''a'') = [tip1, tip2, tip3, tip4, tip5]"
    by (simp add: matching_tips_def health_tips_notebook matches_a)
  then have r: "tips_rendered (lit ''a'') = [tip1, tip2, tip3, tip4, tip5]"
    by (simp add: tips_rendered_relevant relevant_tips_def)
  have f: "filter (shares_word (lit ''a'')) (health_tips notebook) = [tip1, tip2, tip3, tip4]"
    by (simp add: health_tips_notebook shares_a)
  have g: "filter (shares_word_lower (lit ''a'')) (health_tips notebook) = [tip1, tip2, tip3, tip4]"
    by (simp add: health_tips_notebook shares_lower_a)
  have "tip5 \<notin> set (filter (shares_word (lit ''a'')) (health_tips notebook))"
    and "tip5 \<notin> set (filter (shares_word_lower (lit ''a'')) (health_tips notebook))"
    by (simp_all add: shares_a shares_lower_a)
  moreover have "tip5 \<in> set (tips_rendered (lit ''a''))"
    by (simp add: r)
  ultimately have
    "set (tips_rendered (lit ''a'')) \<noteq> set (filter (shares_word (lit ''a'')) (health_tips notebook))"
    "set (tips_rendered (lit ''a'')) \<noteq>
       set (filter (shares_word_lower (lit ''a'')) (health_tips notebook))"
    by blast+
  with m r f g show ?thesis by simp
qed

text \<open>
  C5. For the query "HIIT workout" the output includes the rendering of the tip whose source
  is "Fitness Guru" (the tip with id "tip1"): the output is that rendering, a newline, and the
  rendering of the fifth tip, whose content has "workout" inside "workouts".
\<close>

theorem hiit_workout_query:
  "fst (retrieve_tips (lit ''HIIT workout'') notebook) =
     Inr (str_join newline [rendering tip1, rendering tip5]) \<and>
   rendering tip1 \<in> set (output_lines (str_join newline [rendering tip1, rendering tip5])) \<and>
   getitem tip1 ''id'' = Inr (lit ''tip1'') \<and>
   tip_source tip1 = lit ''Fitness Guru'' \<and>
   rendering tip1 =
     lit ''Source: Fitness Guru => Do a 10-minute HIIT workout to boost your metabolism.''"
proof -
  have m: "matching_tips (lit ''HIIT workout'') = [tip1, tip5]"
    by (simp add: matching_tips_def health_tips_notebook matches_hiit)
  have r: "relevant_tips (lit ''HIIT workout'') = [tip1, tip5]"
    by (simp add: relevant_tips_def m)
  have "output_lines (str_join newline (map rendering (relevant_tips (lit ''HIIT workout''))))
      = map rendering (relevant_tips (lit ''HIIT workout''))"
    by (rule relevant_lines)
  then have l: "output_lines (str_join newline [rendering tip1, rendering tip5])
      = [rendering tip1, rendering tip5]"
    unfolding r by simp
  have s: "tip_source tip1 = lit ''Fitness Guru''"
    by (simp add: tip_source_def tip1_def)
  have i: "getitem tip1 ''id'' = Inr (lit ''tip1'')"
    by (simp add: getitem_def tip1_def)
  show ?thesis
    unfolding l using r s i rendering_tips(1) by (simp add: retrieve_tips_notebook)
qed

text \<open>
  C6. \<^verbatim>\<open>retrieve_tips\<close> is deterministic and total: for every query string, two calls in
  a row on the notebook's tip store both return, without raising, and return the same string.
\<close>

theorem retrieve_tips_deterministic_total:
  "\<exists>out. retrieve_twice q notebook = (Inr out, Inr out)"
  by (simp add: retrieve_twice_def retrieve_tips_notebook)

text \<open>
  C7. For every query string, a call of \<^verbatim>\<open>retrieve_tips\<close> leaves the globals as they
  were, whatever the tip store holds and whether the call returns or raises; on the notebook
  the store is the same list of the same five tips afterwards.
\<close>

theorem retrieve_tips_frame:
  "snd (retrieve_tips q g) = g \<and>
   health_tips (snd (retrieve_tips q notebook)) = [tip1, tip2, tip3, tip4, tip5]"
  by (simp add: retrieve_tips_globals health_tips_notebook)

text \<open>
  C8. For every model-call collaborator and every task, the run of the Turn Coordinator
  configured as \<open>group_chat\<close> (a maximum of 4 turns, no termination condition) ends, makes at
  most 4 role invocations, and invokes the roles in the alternating order Retriever,
  Responder, Retriever, Responder, of which the invocations made are an initial part.
\<close>

theorem group_chat_four_turns:
  "length (invoked (run_stream group_chat model task)) \<le> 4 \<and>
   prefix (invoked (run_stream group_chat model task))
     [RetrieverAgent, ResponderAgent, RetrieverAgent, ResponderAgent] \<and>
   phase (run_stream group_chat model task) = Done"
proof -
  let ?c = "run_stream group_chat model task"
  have "round_robin ?c"
    unfolding run_stream_def
  proof (rule run_invariant)
    show "round_robin (step group_chat model c)" if "round_robin c" for c
      using that by (rule step_round_robin)
    show "round_robin \<lparr>phase = Idle, turn_count = 0, transcript = task, invoked = [], failed = None\<rparr>"
      by (simp add: round_robin_def alternating_0)
  qed
  then have i: "alternating (length (invoked ?c)) = invoked ?c" and l: "length (invoked ?c) \<le> 4"
    by (simp_all add: round_robin_def)
  have "alternating 4 = [RetrieverAgent, ResponderAgent, RetrieverAgent, ResponderAgent]"
    by (simp add: alternating_def upt_rec)
  moreover have "phase ?c = Done"
    unfolding run_stream_def by (rule run_Done)
  ultimately show ?thesis
    using alternating_prefix [OF l] l unfolding i by simp
qed




text \<open>
  C10. For every query string, the lines of the output are the renderings of tips of the
  store, taken in store order with none repeated (a subsequence of the store), no two lines
  are equal, and there are between 1 and 5 lines.
\<close>

theorem retrieve_tips_lines:
  "\<exists>out ts. fst (retrieve_tips q notebook) = Inr out \<and>
     output_lines out = map rendering ts \<and>
     subseq ts (health_tips notebook) \<and>
     distinct (output_lines out) \<and>
     1 \<le> length (output_lines out) \<and> length (output_lines out) \<le> 5"
proof -
  let ?ts = "relevant_tips q"
  let ?out = "str_join newline (map rendering ?ts)"
  have l: "output_lines ?out = map rendering ?ts"
    by (rule relevant_lines)
  have s: "subseq ?ts (health_tips notebook)"
    by (rule relevant_tips_subseq)
  have "distinct (map rendering ?ts)"
    using rendering_distinct by (simp add: relevant_tips_def matching_tips_def distinct_map_filter)
  moreover have "1 \<le> length ?ts"
    using relevant_tips_nonempty [of q] by (cases ?ts) auto
  moreover have "length ?ts \<le> 5"
    using list_emb_length [OF s] by (simp add: health_tips_notebook)
  ultimately show ?thesis
    using l s by (auto simp: retrieve_tips_notebook intro!: exI [of _ ?ts])
qed

end
